theory Spec2Isabelle
  imports Complex_Main
begin

section \<open>The Morse-code calculator face (morsecalc\_face.c)\<close>

text \<open>
  A shallow embedding of \<^verbatim>\<open>movement/watch_faces/complication/morsecalc_face.c\<close>:
  the float formatter \<^verbatim>\<open>morsecalc_print_float\<close>, the two renderers
  \<^verbatim>\<open>morsecalc_print_token\<close> and \<^verbatim>\<open>morsecalc_print_stack\<close>, the dispatcher
  \<^verbatim>\<open>morsecalc_input\<close> and the activation hook. Every C function that writes to the
  display takes the display and returns the new one; every function that mutates the
  session takes the session and returns the new one.
\<close>

subsection \<open>The display\<close>

text \<open>
  Modelled from the spec: \<^verbatim>\<open>watch_display_character\<close> and \<^verbatim>\<open>watch_display_string\<close>
  are declared in \<^verbatim>\<open>watch.h\<close>, which is not part of the source at hand. The spec fixes the
  surface as exactly 10 character positions; a write to position \<open>pos\<close> replaces the
  character there and a write beyond the last position has no effect. A string is
  written character by character from its start position.
\<close>

type_synonym display = "nat \<Rightarrow> char"

definition watch_display_character :: "char \<Rightarrow> nat \<Rightarrow> display \<Rightarrow> display" where
  "watch_display_character c pos disp = (if pos < 10 then disp(pos := c) else disp)"

fun watch_display_string :: "string \<Rightarrow> nat \<Rightarrow> display \<Rightarrow> display" where
  "watch_display_string [] pos disp = disp"
| "watch_display_string (c # str) pos disp =
     watch_display_string str (pos + 1) (watch_display_character c pos disp)"

text \<open>The characters shown at the \<open>len\<close> positions starting at \<open>pos\<close>.\<close>

definition shown :: "display \<Rightarrow> nat \<Rightarrow> nat \<Rightarrow> string" where
  "shown disp pos len = map disp [pos..<pos + len]"

definition blank_display :: display where
  "blank_display = (\<lambda>pos. CHR '' '')"

subsection \<open>C arithmetic on \<^verbatim>\<open>int\<close> and \<^verbatim>\<open>char\<close>\<close>

text \<open>
  C's \<^verbatim>\<open>/\<close> and \<^verbatim>\<open>%\<close> on \<^verbatim>\<open>int\<close> truncate towards zero. The expression
  \<^verbatim>\<open>'0' + v\<close> is computed on \<^verbatim>\<open>int\<close> and converted to \<^verbatim>\<open>char\<close> when it is passed to
  \<^verbatim>\<open>watch_display_character\<close>, which keeps its low 8 bits.
\<close>

definition c_div :: "int \<Rightarrow> int \<Rightarrow> int" where
  "c_div x y = sgn x * sgn y * (\<bar>x\<bar> div \<bar>y\<bar>)"

definition c_mod :: "int \<Rightarrow> int \<Rightarrow> int" where
  "c_mod x y = x - y * c_div x y"

definition char_plus :: "char \<Rightarrow> int \<Rightarrow> char" where
  "char_plus c v = char_of (of_char c + v)"

definition NUL :: char where
  "NUL = CHR 0x00"

subsection \<open>Doubles\<close>

text \<open>
  A \<^verbatim>\<open>double\<close> is a finite value, a NaN or one of the two infinities. A finite value
  is given by the real number it denotes, so \<^verbatim>\<open>d == 0\<close> holds for both zeros; the
  comparisons \<^verbatim>\<open>d == 0\<close> and \<^verbatim>\<open>d<0\<close> and the negation \<^verbatim>\<open>-d\<close> are exact on doubles.
\<close>

datatype double = Finite real | NaN | PosInf | NegInf

subsection \<open>The double arithmetic of the formatter\<close>

text \<open>
  Lines 61 and 66 of \<^verbatim>\<open>morsecalc_print_float\<close> compute with the C library (\<^verbatim>\<open>log\<close>,
  \<^verbatim>\<open>floor\<close>, \<^verbatim>\<open>pow\<close>, \<^verbatim>\<open>round\<close>), with the division and the multiplication of IEEE
  doubles, and with the conversion of a double to \<^verbatim>\<open>int\<close>. None of these is code of the
  face, and what they give depends on the platform: every operation rounds, \<^verbatim>\<open>pow\<close>
  overflows to infinity for the smallest doubles, and the conversion of a value outside
  the range of \<^verbatim>\<open>int\<close> is undefined. Their results are therefore parameters of the model:
  \<^item> \<open>order_of_magnitude a d\<close> is the \<^verbatim>\<open>int\<close> that line 61,
    \<^verbatim>\<open>int om = (int) floor(log(d)/log(10))\<close>, stores in \<^verbatim>\<open>om\<close> for the positive double \<open>d\<close>;
  \<^item> \<open>significant_digits a d e\<close> is the \<^verbatim>\<open>int\<close> that line 66,
    \<^verbatim>\<open>digits = round(d*pow(10.0, 3-om))\<close>, stores in \<^verbatim>\<open>digits\<close> for the positive double
    \<open>d\<close> when \<^verbatim>\<open>om\<close> is \<open>e\<close>.

  Everything the formatter itself does with these two integers (the comparison with 9999,
  the increment, the negation, the divisions by powers of ten) is modelled as written, on
  the integers; the increment and the negation leave the range of \<^verbatim>\<open>int\<close> only for an
  order of magnitude of \<^verbatim>\<open>INT_MAX\<close> or \<^verbatim>\<open>INT_MIN\<close>.
\<close>

record float_arithmetic =
  order_of_magnitude :: "real \<Rightarrow> int"
  significant_digits :: "real \<Rightarrow> int \<Rightarrow> int"

subsection \<open>The float formatter\<close>

text \<open>
  Lines 55 to 70, "record number properties": the values of the four local variables
  of \<^verbatim>\<open>morsecalc_print_float\<close> when the printing starts. The two flags are C \<^verbatim>\<open>int\<close>s
  holding 0 or 1.
\<close>

record number_properties =
  is_negative :: int
  om_is_negative :: int
  digits :: int
  om :: int

definition morsecalc_number_properties :: "float_arithmetic \<Rightarrow> real \<Rightarrow> number_properties" where
  "morsecalc_number_properties a d0 =
     (let neg = (if d0 < 0 then 1 else 0);
          d = (if neg \<noteq> 0 then - d0 else d0);
          e = order_of_magnitude a d;
          eneg = (if e < 0 then 1 else 0);
          n = significant_digits a d e
      in if n > 9999
         then \<lparr>is_negative = neg, om_is_negative = eneg, digits = 1000, om = e + 1\<rparr>
         else \<lparr>is_negative = neg, om_is_negative = eneg, digits = n, om = e\<rparr>)"

text \<open>Lines 72 to 76: the two sign positions.\<close>

definition print_signs :: "number_properties \<Rightarrow> display \<Rightarrow> display" where
  "print_signs p disp =
     (let disp1 = (if is_negative p \<noteq> 0 then watch_display_character CHR ''-'' 1 disp
                   else watch_display_character CHR '' '' 1 disp)
      in if om_is_negative p < 0 then watch_display_character CHR ''-'' 2 disp1
         else watch_display_character CHR '' '' 2 disp1)"

text \<open>
  Lines 79 to 82 and 94 to 97: a value written as four decimal digits at positions 4 to 7.
\<close>

definition print_four_digits :: "int \<Rightarrow> display \<Rightarrow> display" where
  "print_four_digits v disp =
     watch_display_character (char_plus CHR ''0'' (c_mod (c_div v 1) 10)) 7
       (watch_display_character (char_plus CHR ''0'' (c_mod (c_div v 10) 10)) 6
         (watch_display_character (char_plus CHR ''0'' (c_mod (c_div v 100) 10)) 5
           (watch_display_character (char_plus CHR ''0'' (c_mod (c_div v 1000) 10)) 4 disp)))"

text \<open>Lines 85 to 99: the exponent, or the overflow and underflow display.\<close>

definition print_exponent :: "number_properties \<Rightarrow> display \<Rightarrow> display" where
  "print_exponent p disp =
     (let e = (if om_is_negative p \<noteq> 0 then - om p else om p)
      in if e \<le> 99
         then watch_display_character (char_plus CHR ''0'' (c_mod (c_div e 1) 10)) 9
                (watch_display_character (char_plus CHR ''0'' (c_mod (c_div e 10) 10)) 8 disp)
         else
           (let disp1 = (if om_is_negative p \<noteq> 0 then watch_display_string ''    uf'' 4 disp
                         else watch_display_string ''    of'' 4 disp)
            in if e < 9999 then print_four_digits e disp1 else disp1))"

definition morsecalc_print_float :: "float_arithmetic \<Rightarrow> double \<Rightarrow> display \<Rightarrow> display" where
  "morsecalc_print_float a d disp =
     (case d of
        NaN \<Rightarrow> watch_display_string ''   nan'' 4 disp
      | PosInf \<Rightarrow> watch_display_string ''   inf'' 4 disp
      | NegInf \<Rightarrow> watch_display_string ''   inf'' 4 (watch_display_character CHR ''-'' 1 disp)
      | Finite x \<Rightarrow>
          if x = 0 then watch_display_string ''     0'' 4 disp
          else
            (let p = morsecalc_number_properties a x
             in print_exponent p (print_four_digits (digits p) (print_signs p disp))))"

subsection \<open>The session state and its collaborators\<close>

text \<open>
  Modelled from the spec: the Morse-code buffer \<^verbatim>\<open>mc_state_t\<close> with \<^verbatim>\<open>mc_reset\<close> and
  \<^verbatim>\<open>mc_input\<close>, which live in the Morse-code library and are not part of the source at
  hand. The spec describes an ordered sequence of symbols with its current length and a
  maximum capacity; reset clears it to length 0; a push appends one symbol, and is a
  no-op once the capacity is reached. The fields \<open>b\<close> and \<open>bidx\<close> are the two that
  the face reads.
\<close>

record mc_state =
  b :: string
  bidx :: nat

definition mc_reset :: "mc_state \<Rightarrow> mc_state" where
  "mc_reset m = m\<lparr>b := [], bidx := 0\<rparr>"

text \<open>
  Modelled from the spec: the calculator handle \<^verbatim>\<open>calc_state_t\<close>, of which the face
  reads the stack depth \<open>s\<close> and the cells of \<open>stack\<close>.
\<close>

record calc_state =
  stack :: "double list"
  s :: nat

text \<open>
  The session \<^verbatim>\<open>morsecalc_state_t\<close>: the token is the array
  \<^verbatim>\<open>char token[MORSECALC_TOKEN_LEN]\<close>, NUL-terminated, and \<open>idxt\<close> (a \<^verbatim>\<open>uint8_t\<close>) is
  the index of its first free cell.
\<close>

record morsecalc_state =
  cs :: calc_state
  mc :: mc_state
  token :: string
  idxt :: nat

text \<open>
  What the face takes from outside the source at hand, as parameters: the macro
  \<^verbatim>\<open>MORSECALC_TOKEN_LEN\<close>, the capacity of the Morse-code buffer, the decoding table
  \<^verbatim>\<open>mc_dec\<close> (the character a buffer decodes to, NUL when there is none), the
  calculator engine \<^verbatim>\<open>calc_input\<close>, which takes the calculator state and a token and
  returns a status code and the updated calculator state, and the double arithmetic of
  the formatter.
\<close>

record environment =
  MORSECALC_TOKEN_LEN :: nat
  mc_capacity :: nat
  mc_dec :: "string \<Rightarrow> char"
  calc_input :: "calc_state \<Rightarrow> string \<Rightarrow> int \<times> calc_state"
  arith :: float_arithmetic

definition mc_input :: "environment \<Rightarrow> mc_state \<Rightarrow> char \<Rightarrow> mc_state" where
  "mc_input env m c =
     (if bidx m < mc_capacity env then m\<lparr>b := b m @ [c], bidx := bidx m + 1\<rparr> else m)"

text \<open>The C string held in a character array: the characters before the first NUL.\<close>

definition c_str :: "string \<Rightarrow> string" where
  "c_str cells = takeWhile (\<lambda>c. c \<noteq> NUL) cells"

definition strlen :: "string \<Rightarrow> nat" where
  "strlen cells = length (c_str cells)"

subsection \<open>The renderers\<close>

definition morsecalc_print_token :: "environment \<Rightarrow> morsecalc_state \<Rightarrow> display \<Rightarrow> display" where
  "morsecalc_print_token env mcs disp =
     (let disp1 = watch_display_string ''          '' 0 disp;
          c = mc_dec env (b (mc mcs));
          c1 = (if NUL = c then CHR '' '' else c);
          disp2 = watch_display_character c1 0 disp1;
          disp3 = watch_display_character (char_plus CHR ''0'' (int (bidx (mc mcs)))) 3 disp2;
          nlen = strlen (token mcs) mod 256;
          nprint = min nlen 6
      in watch_display_string (c_str (drop (nlen - nprint) (token mcs))) (10 - nprint) disp3)"

definition morsecalc_reset_token :: "environment \<Rightarrow> morsecalc_state \<Rightarrow> morsecalc_state" where
  "morsecalc_reset_token env mcs =
     mcs\<lparr>token := replicate (MORSECALC_TOKEN_LEN env) NUL, idxt := 0\<rparr>"

text \<open>Lines 134 and 135: the selected stack item, a \<^verbatim>\<open>uint8_t\<close> between 0 and 9.\<close>

definition stack_index :: "char \<Rightarrow> nat" where
  "stack_index c =
     (if (of_char CHR ''0'' :: nat) \<le> of_char c \<and> (of_char c :: nat) \<le> of_char CHR ''9''
      then of_char c - of_char CHR ''0'' else 0)"

text \<open>
  \<^verbatim>\<open>morsecalc_print_stack\<close>, returning beside the display the indices of the cells of
  \<^verbatim>\<open>cs->stack\<close> that it read, in order. The index \<^verbatim>\<open>s-1-idx\<close> is computed on \<^verbatim>\<open>int\<close>.
\<close>

definition morsecalc_print_stack_traced ::
    "environment \<Rightarrow> morsecalc_state \<Rightarrow> display \<Rightarrow> int list \<times> display" where
  "morsecalc_print_stack_traced env mcs disp =
     (let disp1 = watch_display_string ''          '' 0 disp;
          c = mc_dec env (b (mc mcs));
          idx = stack_index c;
          depth = s (cs mcs);
          i = int depth - 1 - int idx;
          (reads, disp2) =
            (if idx \<ge> depth then ([], watch_display_string '' empty'' 4 disp1)
             else ([i], morsecalc_print_float (arith env) (stack (cs mcs) ! nat i) disp1));
          disp3 = watch_display_character (char_plus CHR ''0'' (int idx)) 0 disp2
      in (reads, watch_display_character (char_plus CHR ''0'' (int depth)) 3 disp3))"

definition morsecalc_print_stack :: "environment \<Rightarrow> morsecalc_state \<Rightarrow> display \<Rightarrow> display" where
  "morsecalc_print_stack env mcs disp = snd (morsecalc_print_stack_traced env mcs disp)"

subsection \<open>The dispatcher\<close>

text \<open>
  Lines 192 to 197 of \<^verbatim>\<open>morsecalc_input\<close>: the literal the final \<^verbatim>\<open>switch(status)\<close>
  writes at position 4, if any.
\<close>

definition error_literal :: "int \<Rightarrow> string option" where
  "error_literal status =
     (if status = 0 then None
      else if status = - 1 then Some ''cmderr''
      else if status = - 2 then Some ''stkerr''
      else Some ''   err'')"

definition print_errors :: "int \<Rightarrow> display \<Rightarrow> display" where
  "print_errors status disp =
     (case error_literal status of
        None \<Rightarrow> disp
      | Some str \<Rightarrow> watch_display_string str 4 disp)"

text \<open>
  Lines 148 to 189 of \<^verbatim>\<open>morsecalc_input\<close>: the value of \<^verbatim>\<open>status\<close>, the session and
  the display when the final \<^verbatim>\<open>switch(status)\<close> is reached.
\<close>

definition morsecalc_input_dispatch ::
    "environment \<Rightarrow> morsecalc_state \<Rightarrow> char \<Rightarrow> display \<Rightarrow> int \<times> morsecalc_state \<times> display" where
  "morsecalc_input_dispatch env mcs c disp =
     (if c \<noteq> CHR ''x'' then
        (let mcs1 = mcs\<lparr>mc := mc_input env (mc mcs) c\<rparr>
         in (0, mcs1, morsecalc_print_token env mcs1 disp))
      else
        (let dec = mc_dec env (b (mc mcs));
             mcs1 = mcs\<lparr>mc := mc_reset (mc mcs)\<rparr>
         in if dec = NUL then (0, mcs1, morsecalc_print_token env mcs1 disp)
            else if dec = CHR '' '' then
              (let (status, cs1) = calc_input env (cs mcs1) (c_str (token mcs1));
                   mcs2 = morsecalc_reset_token env (mcs1\<lparr>cs := cs1\<rparr>)
               in (status, mcs2, morsecalc_print_stack env mcs2 disp))
            else if dec = CHR ''('' then
              (let mcs2 = (if idxt mcs1 > 0
                           then mcs1\<lparr>idxt := idxt mcs1 - 1,
                                     token := (token mcs1)[idxt mcs1 - 1 := NUL]\<rparr>
                           else mcs1)
               in (0, mcs2, morsecalc_print_token env mcs2 disp))
            else if dec = CHR ''S'' then
              (let mcs2 = morsecalc_reset_token env mcs1
               in (0, mcs2, morsecalc_print_stack env mcs2 disp))
            else if int (idxt mcs1) < int (MORSECALC_TOKEN_LEN env) - 1 then
              (let mcs2 = mcs1\<lparr>token := (token mcs1)[idxt mcs1 := dec],
                               idxt := (idxt mcs1 + 1) mod 256\<rparr>
               in (0, mcs2, morsecalc_print_token env mcs2 disp))
            else (0, mcs1, watch_display_string ''  full'' 4 disp)))"

definition morsecalc_input ::
    "environment \<Rightarrow> morsecalc_state \<Rightarrow> char \<Rightarrow> display \<Rightarrow> morsecalc_state \<times> display" where
  "morsecalc_input env mcs c disp =
     (let (status, mcs1, disp1) = morsecalc_input_dispatch env mcs c disp
      in (mcs1, print_errors status disp1))"

subsection \<open>The activation hook\<close>

definition morsecalc_face_activate ::
    "environment \<Rightarrow> morsecalc_state \<Rightarrow> display \<Rightarrow> morsecalc_state \<times> display" where
  "morsecalc_face_activate env mcs disp =
     (let mcs1 = mcs\<lparr>mc := mc_reset (mc mcs)\<rparr>
      in (mcs1, morsecalc_print_stack env mcs1 disp))"

subsection \<open>An example session\<close>

text \<open>
  A concrete environment and session on which the model is evaluated: a three-entry
  decoding table (not the Morse table of the face), a calculator engine that pushes
  the token \<open>1\<close> and rejects every other token with a status that depends on it, a
  token array of 9 cells and a stack holding \<open>depth\<close> items.

  Its double arithmetic is the arithmetic of lines 61 and 66 carried out exactly on the
  reals: \<open>floor (ln d / ln 10)\<close> and \<open>round (d * 10 ^ (3 - om))\<close>, where C's \<^verbatim>\<open>round\<close>
  (halves away from zero) is \<^term>\<open>round\<close> on the positive values it receives. IEEE
  arithmetic does not agree with it at every double: it differs where the scaled value
  is within a rounding error of a half or of a power of ten, and where \<^verbatim>\<open>pow\<close>
  overflows. The formatter is evaluated with it only at \<open>0.00271\<close>, \<open>9.9996\<close>,
  \<open>9.9996e-100\<close> and \<open>2.5e-150\<close>, where the scaled values (2710, 9999.6, 9999.6 and
  2500) and the logarithms are far from those boundaries. The exact order of magnitude
  is also the \<open>floor (log10 |d|)\<close> that the claims about the formatter speak of.
\<close>

definition exact_order_of_magnitude :: "real \<Rightarrow> int" where
  "exact_order_of_magnitude d = \<lfloor>ln d / ln 10\<rfloor>"

definition exact_significant_digits :: "real \<Rightarrow> int \<Rightarrow> int" where
  "exact_significant_digits d e = round (d * 10 powr real_of_int (3 - e))"

definition exact_arithmetic :: float_arithmetic where
  "exact_arithmetic =
     \<lparr>order_of_magnitude = exact_order_of_magnitude,
      significant_digits = exact_significant_digits\<rparr>"

definition example_mc_dec :: "string \<Rightarrow> char" where
  "example_mc_dec syms =
     (if syms = ''.----'' then CHR ''1''
      else if syms = ''.-'' then CHR ''a''
      else if syms = ''.-.-'' then CHR '' ''
      else NUL)"

definition example_calc_input :: "calc_state \<Rightarrow> string \<Rightarrow> int \<times> calc_state" where
  "example_calc_input st tok =
     (if tok = ''1'' then (0, st\<lparr>stack := stack st @ [Finite 1], s := s st + 1\<rparr>)
      else if tok = ''a'' then (- 1, st)
      else if tok = ''+'' then (- 2, st)
      else (- 3, st))"

definition example_environment :: environment where
  "example_environment =
     \<lparr>MORSECALC_TOKEN_LEN = 9, mc_capacity = 5,
      mc_dec = example_mc_dec, calc_input = example_calc_input,
      arith = exact_arithmetic\<rparr>"

definition example_session :: "string \<Rightarrow> string \<Rightarrow> nat \<Rightarrow> morsecalc_state" where
  "example_session syms tok depth =
     \<lparr>cs = \<lparr>stack = [Finite 2, Finite 3], s = depth\<rparr>,
      mc = \<lparr>b = syms, bidx = length syms\<rparr>,
      token = tok @ replicate (9 - length tok) NUL,
      idxt = length tok\<rparr>"

section \<open>Properties\<close>

subsection \<open>Reading the display\<close>

lemma watch_display_character_apply:
  "watch_display_character c pos disp q = (if pos < 10 \<and> q = pos then c else disp q)"
  by (simp add: watch_display_character_def)

lemma shown_0_10:
  "shown disp 0 10 =
     [disp 0, disp 1, disp 2, disp 3, disp 4, disp 5, disp 6, disp 7, disp 8, disp 9]"
  by (simp add: shown_def upt_rec eval_nat_numeral)

lemma shown_4_6: "shown disp 4 6 = [disp 4, disp 5, disp 6, disp 7, disp 8, disp 9]"
  by (simp add: shown_def upt_rec eval_nat_numeral)

lemma shown_4_4: "shown disp 4 4 = [disp 4, disp 5, disp 6, disp 7]"
  by (simp add: shown_def upt_rec eval_nat_numeral)

lemma shown_8_2: "shown disp 8 2 = [disp 8, disp 9]"
  by (simp add: shown_def upt_rec eval_nat_numeral)

lemmas read_display =
  watch_display_character_apply shown_0_10 shown_4_6 shown_4_4 shown_8_2

subsection \<open>C arithmetic\<close>

lemma c_div_nonneg: "0 \<le> x \<Longrightarrow> 0 < y \<Longrightarrow> c_div x y = x div y"
  by (simp add: c_div_def sgn_if)

lemma c_mod_nonneg: "0 \<le> x \<Longrightarrow> 0 < y \<Longrightarrow> c_mod x y = x mod y"
  by (simp add: c_mod_def c_div_nonneg minus_mult_div_eq_mod)

text \<open>
  Claim C9: the formatter renders each special value as its fixed literal. The literal
  is a six-character string written at position 4, so it fills positions 4 to 9: zero is
  the blank-padded \<open>0\<close>, NaN is \<open>nan\<close>, positive infinity is \<open>inf\<close>, and negative
  infinity is \<open>inf\<close> with the glyph \<open>-\<close> in the sign position 1. The sign position is
  left as it was for the other special values; on a cleared display the whole row is as
  given.
\<close>

theorem morsecalc_print_float_special_values:
  "shown (morsecalc_print_float a (Finite 0) disp) 4 6 = ''     0'' \<and>
   shown (morsecalc_print_float a NaN disp) 4 6 = ''   nan'' \<and>
   shown (morsecalc_print_float a PosInf disp) 4 6 = ''   inf'' \<and>
   shown (morsecalc_print_float a NegInf disp) 4 6 = ''   inf'' \<and>
   morsecalc_print_float a NegInf disp 1 = CHR ''-'' \<and>
   morsecalc_print_float a PosInf disp 1 = disp 1 \<and>
   shown (morsecalc_print_float a (Finite 0) blank_display) 0 10 = ''         0'' \<and>
   shown (morsecalc_print_float a NaN blank_display) 0 10 = ''       nan'' \<and>
   shown (morsecalc_print_float a PosInf blank_display) 0 10 = ''       inf'' \<and>
   shown (morsecalc_print_float a NegInf blank_display) 0 10 = '' -     inf''"
  by (simp add: morsecalc_print_float_def read_display blank_display_def)


subsection \<open>The number properties\<close>

lemma number_properties_unfold:
  "morsecalc_number_properties a d =
     \<lparr>is_negative = (if d < 0 then 1 else 0),
      om_is_negative = (if order_of_magnitude a \<bar>d\<bar> < 0 then 1 else 0),
      digits = (if significant_digits a \<bar>d\<bar> (order_of_magnitude a \<bar>d\<bar>) > 9999 then 1000
                else significant_digits a \<bar>d\<bar> (order_of_magnitude a \<bar>d\<bar>)),
      om = (if significant_digits a \<bar>d\<bar> (order_of_magnitude a \<bar>d\<bar>) > 9999
            then order_of_magnitude a \<bar>d\<bar> + 1 else order_of_magnitude a \<bar>d\<bar>)\<rparr>"
  by (simp add: morsecalc_number_properties_def Let_def abs_if)

subsection \<open>The exact arithmetic\<close>

lemma ten_powr_int: "(10::real) powr real_of_int j = 10 powi j"
  by (rule powr_real_of_int') simp_all

lemma exact_order_of_magnitude_eq_iff:
  assumes "0 < d"
  shows "exact_order_of_magnitude d = k \<longleftrightarrow> 10 powi k \<le> d \<and> d < 10 powi (k + 1)"
proof -
  have "exact_order_of_magnitude d = \<lfloor>log 10 d\<rfloor>"
    by (simp add: exact_order_of_magnitude_def log_def)
  moreover have "\<lfloor>log 10 d\<rfloor> = k \<longleftrightarrow>
      10 powr real_of_int k \<le> d \<and> d < 10 powr real_of_int (k + 1)"
    using assms by (intro floor_log_eq_powr_iff) simp_all
  ultimately show ?thesis
    by (simp only: ten_powr_int)
qed

lemma exact_significant_digits_powi:
  "exact_significant_digits d e = round (d * 10 powi (3 - e))"
  by (simp only: exact_significant_digits_def ten_powr_int)

lemma exact_arithmetic_fields:
  "order_of_magnitude exact_arithmetic = exact_order_of_magnitude"
  "significant_digits exact_arithmetic = exact_significant_digits"
  by (simp_all add: exact_arithmetic_def)

subsection \<open>The pieces of the formatter, position by position\<close>

lemma print_signs_apply:
  "print_signs p disp q =
     (if q = 1 then (if is_negative p \<noteq> 0 then CHR ''-'' else CHR '' '')
      else if q = 2 then (if om_is_negative p < 0 then CHR ''-'' else CHR '' '')
      else disp q)"
  by (simp add: print_signs_def Let_def watch_display_character_apply)

lemma print_four_digits_apply:
  "print_four_digits v disp q =
     (if q = 7 then char_plus CHR ''0'' (c_mod (c_div v 1) 10)
      else if q = 6 then char_plus CHR ''0'' (c_mod (c_div v 10) 10)
      else if q = 5 then char_plus CHR ''0'' (c_mod (c_div v 100) 10)
      else if q = 4 then char_plus CHR ''0'' (c_mod (c_div v 1000) 10)
      else disp q)"
  by (simp add: print_four_digits_def watch_display_character_apply)

lemma print_exponent_two_digits:
  assumes "(if om_is_negative p \<noteq> 0 then - om p else om p) \<le> 99"
  shows "print_exponent p disp q =
     (if q = 9
      then char_plus CHR ''0''
             (c_mod (c_div (if om_is_negative p \<noteq> 0 then - om p else om p) 1) 10)
      else if q = 8
      then char_plus CHR ''0''
             (c_mod (c_div (if om_is_negative p \<noteq> 0 then - om p else om p) 10) 10)
      else disp q)"
  using assms by (simp add: print_exponent_def Let_def watch_display_character_apply)

lemma print_exponent_overflow:
  assumes "99 < (if om_is_negative p \<noteq> 0 then - om p else om p)"
    and "(if om_is_negative p \<noteq> 0 then - om p else om p) < 9999"
  shows "print_exponent p disp q =
     (if q = 9 then CHR ''f''
      else if q = 8 then (if om_is_negative p \<noteq> 0 then CHR ''u'' else CHR ''o'')
      else if 4 \<le> q \<and> q \<le> 7
        then print_four_digits (if om_is_negative p \<noteq> 0 then - om p else om p) disp q
      else disp q)"
  using assms
  by (simp add: print_exponent_def Let_def watch_display_character_apply print_four_digits_apply)

lemma print_exponent_literal:
  assumes "99 < (if om_is_negative p \<noteq> 0 then - om p else om p)"
  shows "print_exponent p disp 8 = (if om_is_negative p \<noteq> 0 then CHR ''u'' else CHR ''o'')"
    and "print_exponent p disp 9 = CHR ''f''"
  using assms
  by (simp_all add: print_exponent_def Let_def watch_display_character_apply
      print_four_digits_apply)

lemma char_plus_digits:
  "char_plus CHR ''0'' 0 = CHR ''0''" "char_plus CHR ''0'' 1 = CHR ''1''"
  "char_plus CHR ''0'' 2 = CHR ''2''" "char_plus CHR ''0'' 3 = CHR ''3''"
  "char_plus CHR ''0'' 4 = CHR ''4''" "char_plus CHR ''0'' 5 = CHR ''5''"
  "char_plus CHR ''0'' 6 = CHR ''6''" "char_plus CHR ''0'' 7 = CHR ''7''"
  "char_plus CHR ''0'' 8 = CHR ''8''" "char_plus CHR ''0'' 9 = CHR ''9''"
  by (simp_all add: char_plus_def char_of_def)

lemma print_exponent_low: "q < 4 \<Longrightarrow> print_exponent p disp q = disp q"
  by (simp add: print_exponent_def Let_def watch_display_character_apply print_four_digits_apply)

text \<open>
  Whatever the double arithmetic gives, the exponent-sign position of a finite nonzero
  value is blank: the flag \<^verbatim>\<open>om_is_negative\<close> is 0 or 1 and line 75 tests it for
  \<^verbatim>\<open>< 0\<close>.
\<close>

lemma exponent_sign_position_blank:
  "x \<noteq> 0 \<Longrightarrow> morsecalc_print_float a (Finite x) disp 2 = CHR '' ''"
  by (simp add: morsecalc_print_float_def Let_def print_exponent_low print_four_digits_apply
      print_signs_apply number_properties_unfold)

lemma exact_order_of_magnitude_271: "exact_order_of_magnitude (271 / 100000) = - 3"
  by (simp add: exact_order_of_magnitude_eq_iff power_int_minus)

lemma number_properties_271:
  "morsecalc_number_properties exact_arithmetic (- (271 / 100000)) =
     \<lparr>is_negative = 1, om_is_negative = 1, digits = 2710, om = - 3\<rparr>"
  by (simp add: number_properties_unfold exact_arithmetic_fields exact_order_of_magnitude_271
      exact_significant_digits_powi)

text \<open>
  Claim C1: for a finite nonzero double whose order of magnitude is at most 99 in
  magnitude, the formatter shows the sign of the value, the sign of the exponent, the
  four significant digits and the two-digit absolute exponent. The code at the spec's
  own example \<open>-0.00271\<close>: whatever the double arithmetic gives and whatever the display
  held, the exponent-sign position 2 is blank afterwards, because line 75 tests
  \<^verbatim>\<open>om_is_negative < 0\<close> on a flag that is 0 or 1 and never takes the branch that writes
  \<open>-\<close>. With the order of magnitude \<open>-3\<close> and the digit value 2710 that the arithmetic
  gives there, a cleared display shows the value sign \<open>-\<close> at position 1, the digits
  \<open>2710\<close> at positions 4 to 7 and the exponent \<open>03\<close> at positions 8 and 9, and no
  exponent sign.
\<close>

theorem morsecalc_print_float_exponent_sign_never_shown:
  "morsecalc_print_float a (Finite (- (271 / 100000))) disp 2 = CHR '' '' \<and>
   exact_order_of_magnitude \<bar>- (271 / 100000)\<bar> = - 3 \<and>
   shown (morsecalc_print_float exact_arithmetic (Finite (- (271 / 100000))) blank_display)
     0 10 = '' -  271003''"
proof -
  have "morsecalc_print_float a (Finite (- (271 / 100000))) disp 2 = CHR '' ''"
    by (rule exponent_sign_position_blank) simp
  moreover have "exact_order_of_magnitude \<bar>- (271 / 100000)\<bar> = - 3"
    by (simp add: exact_order_of_magnitude_271)
  moreover have "shown (morsecalc_print_float exact_arithmetic (Finite (- (271 / 100000)))
      blank_display) 0 10 = '' -  271003''"
    by (simp add: morsecalc_print_float_def number_properties_271
        print_exponent_two_digits print_four_digits_apply print_signs_apply shown_0_10
        blank_display_def c_div_nonneg c_mod_nonneg char_plus_digits Let_def)
  ultimately show ?thesis
    by blast
qed

subsection \<open>The rounding carry\<close>

text \<open>
  Claim C3: for every finite nonzero double \<open>d\<close>, when the rounding of line 66,
  \<open>digits = round (|d| * 10 ^ (3 - om))\<close>, gives a value greater than 9999, the digit
  value is reset to 1000 and the order of magnitude is incremented by one before
  rendering; the digit value that is rendered never exceeds 9999. When the incremented
  exponent fits two digits, positions 4 to 7 show \<open>1000\<close> and positions 8 and 9 the
  incremented exponent's absolute value. This holds for whatever the double arithmetic
  of lines 61 and 66 gives.
\<close>

theorem rounding_carry_correction:
  assumes "d \<noteq> 0"
  shows "digits (morsecalc_number_properties a d) \<le> 9999 \<and>
    (9999 < significant_digits a \<bar>d\<bar> (order_of_magnitude a \<bar>d\<bar>) \<longrightarrow>
       digits (morsecalc_number_properties a d) = 1000 \<and>
       om (morsecalc_number_properties a d) = order_of_magnitude a \<bar>d\<bar> + 1 \<and>
       (\<bar>order_of_magnitude a \<bar>d\<bar> + 1\<bar> \<le> 99 \<longrightarrow>
          shown (morsecalc_print_float a (Finite d) disp) 4 4 = ''1000'' \<and>
          shown (morsecalc_print_float a (Finite d) disp) 8 2 =
            [char_plus CHR ''0'' (\<bar>order_of_magnitude a \<bar>d\<bar> + 1\<bar> div 10 mod 10),
             char_plus CHR ''0'' (\<bar>order_of_magnitude a \<bar>d\<bar> + 1\<bar> mod 10)]))"
proof (intro conjI impI)
  show "digits (morsecalc_number_properties a d) \<le> 9999"
    by (simp add: number_properties_unfold)
next
  assume carry: "9999 < significant_digits a \<bar>d\<bar> (order_of_magnitude a \<bar>d\<bar>)"
  show dg: "digits (morsecalc_number_properties a d) = 1000"
    using carry by (simp add: number_properties_unfold)
  show e1: "om (morsecalc_number_properties a d) = order_of_magnitude a \<bar>d\<bar> + 1"
    using carry by (simp add: number_properties_unfold)
  assume small: "\<bar>order_of_magnitude a \<bar>d\<bar> + 1\<bar> \<le> 99"
  have en: "om_is_negative (morsecalc_number_properties a d) =
      (if order_of_magnitude a \<bar>d\<bar> < 0 then 1 else 0)"
    by (simp add: number_properties_unfold)
  have shown_e: "(if om_is_negative (morsecalc_number_properties a d) \<noteq> 0
        then - om (morsecalc_number_properties a d)
        else om (morsecalc_number_properties a d)) =
      \<bar>order_of_magnitude a \<bar>d\<bar> + 1\<bar>"
    by (simp add: en e1)
  have le: "(if om_is_negative (morsecalc_number_properties a d) \<noteq> 0
        then - om (morsecalc_number_properties a d)
        else om (morsecalc_number_properties a d)) \<le> 99"
    using small by (simp only: shown_e)
  show "shown (morsecalc_print_float a (Finite d) disp) 4 4 = ''1000''"
    using assms
    by (simp add: morsecalc_print_float_def Let_def shown_4_4 print_exponent_two_digits [OF le]
        print_four_digits_apply dg c_div_nonneg c_mod_nonneg char_plus_digits)
  show "shown (morsecalc_print_float a (Finite d) disp) 8 2 =
      [char_plus CHR ''0'' (\<bar>order_of_magnitude a \<bar>d\<bar> + 1\<bar> div 10 mod 10),
       char_plus CHR ''0'' (\<bar>order_of_magnitude a \<bar>d\<bar> + 1\<bar> mod 10)]"
    using assms
    by (simp add: morsecalc_print_float_def Let_def shown_8_2 print_exponent_two_digits [OF le]
        shown_e c_div_nonneg c_mod_nonneg)
qed

lemma exact_order_of_magnitude_24999: "exact_order_of_magnitude (24999 / 2500) = 0"
  by (simp add: exact_order_of_magnitude_eq_iff)

lemma exact_significant_digits_24999: "exact_significant_digits (24999 / 2500) 0 = 10000"
  by (simp add: exact_significant_digits_powi round_def)

text \<open>The spec's example \<open>9.9996\<close>: digits \<open>1000\<close>, exponent \<open>01\<close>.\<close>

theorem rounding_carry_correction_witness:
  "(24999 / 2500 :: real) \<noteq> 0 \<and>
   9999 < significant_digits exact_arithmetic \<bar>24999 / 2500\<bar>
            (order_of_magnitude exact_arithmetic \<bar>24999 / 2500\<bar>) \<and>
   digits (morsecalc_number_properties exact_arithmetic (24999 / 2500)) = 1000 \<and>
   om (morsecalc_number_properties exact_arithmetic (24999 / 2500)) = 1 \<and>
   shown (morsecalc_print_float exact_arithmetic (Finite (24999 / 2500)) blank_display) 4 4 =
     ''1000'' \<and>
   shown (morsecalc_print_float exact_arithmetic (Finite (24999 / 2500)) blank_display) 8 2 =
     ''01''"
  using rounding_carry_correction [of "24999 / 2500" exact_arithmetic blank_display]
  by (simp add: exact_arithmetic_fields exact_order_of_magnitude_24999
      exact_significant_digits_24999 char_plus_digits)

subsection \<open>Overflow and underflow\<close>

lemma shown_exponent_cases:
  assumes "99 < \<bar>om (morsecalc_number_properties a d)\<bar>"
  shows "(if om_is_negative (morsecalc_number_properties a d) \<noteq> 0
          then - om (morsecalc_number_properties a d)
          else om (morsecalc_number_properties a d)) =
         \<bar>om (morsecalc_number_properties a d)\<bar> \<and>
         (om_is_negative (morsecalc_number_properties a d) \<noteq> 0 \<longleftrightarrow>
          om (morsecalc_number_properties a d) < 0)"
  using assms by (auto simp add: number_properties_unfold)

lemma exact_order_of_magnitude_e100:
  "exact_order_of_magnitude (24999 / (2500 * 10 ^ 100)) = - 100"
  by (simp add: exact_order_of_magnitude_eq_iff power_int_minus field_simps)

lemma number_properties_e100:
  "morsecalc_number_properties exact_arithmetic (24999 / (2500 * 10 ^ 100)) =
     \<lparr>is_negative = 0, om_is_negative = 1, digits = 1000, om = - 99\<rparr>"
  using exact_order_of_magnitude_e100
  by (simp add: number_properties_unfold exact_arithmetic_fields exact_significant_digits_powi
      round_def)

text \<open>
  Claim C4 as stated takes the order of magnitude \<open>floor (log10 |d|)\<close>. At
  \<open>9.9996e-100\<close> it is \<open>-100\<close>, beyond two digits, but the value rounds up to
  \<open>1.000e-99\<close>: the carry correction brings the exponent back to \<open>-99\<close>, and the
  formatter shows the digits \<open>1000\<close> and the exponent \<open>99\<close> on the normal path, with
  neither \<open>uf\<close> nor the exponent in the digit field.
\<close>

theorem overflow_underflow_display_counterexample:
  "99 < \<bar>exact_order_of_magnitude \<bar>24999 / (2500 * 10 ^ 100)\<bar>\<bar> \<and>
   shown (morsecalc_print_float exact_arithmetic (Finite (24999 / (2500 * 10 ^ 100)))
     blank_display) 0 10 = ''    100099'' \<and>
   shown (morsecalc_print_float exact_arithmetic (Finite (24999 / (2500 * 10 ^ 100)))
     blank_display) 8 2 \<noteq> ''uf'' \<and>
   shown (morsecalc_print_float exact_arithmetic (Finite (24999 / (2500 * 10 ^ 100)))
     blank_display) 4 4 \<noteq> ''0100''"
  using exact_order_of_magnitude_e100 number_properties_e100
  by (simp add: morsecalc_print_float_def
      print_exponent_two_digits print_four_digits_apply print_signs_apply read_display
      blank_display_def c_div_nonneg c_mod_nonneg char_plus_digits Let_def)

text \<open>
  Claim C4, as amended: for every finite nonzero double whose rendered exponent (the
  order of magnitude that line 61 computes, incremented by one when the rounding carry
  is taken) exceeds 99 in absolute value, the formatter shows the literal \<open>uf\<close> when
  that exponent is negative and \<open>of\<close> when it is positive, at positions 8 and 9, and,
  whenever that absolute exponent is less than 9999, its four decimal digits at the
  digit positions 4 to 7 instead of the significant digits. This holds for whatever the
  double arithmetic of lines 61 and 66 gives.
\<close>

theorem overflow_underflow_display:
  assumes "d \<noteq> 0" and "99 < \<bar>om (morsecalc_number_properties a d)\<bar>"
  shows "om (morsecalc_number_properties a d) =
           (if 9999 < significant_digits a \<bar>d\<bar> (order_of_magnitude a \<bar>d\<bar>)
            then order_of_magnitude a \<bar>d\<bar> + 1 else order_of_magnitude a \<bar>d\<bar>) \<and>
         shown (morsecalc_print_float a (Finite d) disp) 8 2 =
           (if om (morsecalc_number_properties a d) < 0 then ''uf'' else ''of'') \<and>
         (\<bar>om (morsecalc_number_properties a d)\<bar> < 9999 \<longrightarrow>
            shown (morsecalc_print_float a (Finite d) disp) 4 4 =
              [char_plus CHR ''0'' (\<bar>om (morsecalc_number_properties a d)\<bar> div 1000 mod 10),
               char_plus CHR ''0'' (\<bar>om (morsecalc_number_properties a d)\<bar> div 100 mod 10),
               char_plus CHR ''0'' (\<bar>om (morsecalc_number_properties a d)\<bar> div 10 mod 10),
               char_plus CHR ''0'' (\<bar>om (morsecalc_number_properties a d)\<bar> mod 10)])"
proof (intro conjI impI)
  let ?p = "morsecalc_number_properties a d"
  let ?e = "if om_is_negative ?p \<noteq> 0 then - om ?p else om ?p"
  show "om ?p =
      (if 9999 < significant_digits a \<bar>d\<bar> (order_of_magnitude a \<bar>d\<bar>)
       then order_of_magnitude a \<bar>d\<bar> + 1 else order_of_magnitude a \<bar>d\<bar>)"
    by (simp add: number_properties_unfold)
  have e: "?e = \<bar>om ?p\<bar>" and sg: "om_is_negative ?p \<noteq> 0 \<longleftrightarrow> om ?p < 0"
    using shown_exponent_cases [OF assms(2)] by simp_all
  have big: "99 < ?e"
    using assms(2) by (simp only: e)
  show "shown (morsecalc_print_float a (Finite d) disp) 8 2 =
      (if om ?p < 0 then ''uf'' else ''of'')"
    using assms(1) sg
    by (simp add: morsecalc_print_float_def Let_def shown_8_2 print_exponent_literal [OF big])
  assume "\<bar>om ?p\<bar> < 9999"
  then have fits: "?e < 9999"
    by (simp only: e)
  show "shown (morsecalc_print_float a (Finite d) disp) 4 4 =
      [char_plus CHR ''0'' (\<bar>om ?p\<bar> div 1000 mod 10),
       char_plus CHR ''0'' (\<bar>om ?p\<bar> div 100 mod 10),
       char_plus CHR ''0'' (\<bar>om ?p\<bar> div 10 mod 10),
       char_plus CHR ''0'' (\<bar>om ?p\<bar> mod 10)]"
    using assms(1)
    by (simp add: morsecalc_print_float_def Let_def shown_4_4
        print_exponent_overflow [OF big fits] print_four_digits_apply e
        c_div_nonneg c_mod_nonneg)
qed

lemma exact_order_of_magnitude_e150:
  "exact_order_of_magnitude (1 / (4 * 10 ^ 149)) = - 150"
  by (simp add: exact_order_of_magnitude_eq_iff power_int_minus field_simps)

lemma number_properties_e150:
  "morsecalc_number_properties exact_arithmetic (1 / (4 * 10 ^ 149)) =
     \<lparr>is_negative = 0, om_is_negative = 1, digits = 2500, om = - 150\<rparr>"
  using exact_order_of_magnitude_e150
  by (simp add: number_properties_unfold exact_arithmetic_fields exact_significant_digits_powi)

text \<open>The value \<open>2.5e-150\<close>: exponent digits \<open>0150\<close>, literal \<open>uf\<close>.\<close>

theorem overflow_underflow_display_witness:
  "(1 / (4 * 10 ^ 149) :: real) \<noteq> 0 \<and>
   om (morsecalc_number_properties exact_arithmetic (1 / (4 * 10 ^ 149))) = - 150 \<and>
   99 < \<bar>om (morsecalc_number_properties exact_arithmetic (1 / (4 * 10 ^ 149)))\<bar> \<and>
   \<bar>om (morsecalc_number_properties exact_arithmetic (1 / (4 * 10 ^ 149)))\<bar> < 9999 \<and>
   shown (morsecalc_print_float exact_arithmetic (Finite (1 / (4 * 10 ^ 149))) blank_display)
     8 2 = ''uf'' \<and>
   shown (morsecalc_print_float exact_arithmetic (Finite (1 / (4 * 10 ^ 149))) blank_display)
     4 4 = ''0150''"
  using overflow_underflow_display [of "1 / (4 * 10 ^ 149)" exact_arithmetic blank_display]
    number_properties_e150
  by (simp add: char_plus_digits)

subsection \<open>The selected stack item\<close>

lemma nat_between_48_57:
  "n = 48 \<or> n = 49 \<or> n = 50 \<or> n = 51 \<or> n = 52 \<or> n = 53 \<or> n = 54 \<or> n = 55 \<or>
   n = 56 \<or> n = 57"
  if "48 \<le> n" "n \<le> 57" for n :: nat
  using that by arith

lemma char_of_nat_digits:
  "char_of (48::nat) = CHR ''0''" "char_of (49::nat) = CHR ''1''" "char_of (50::nat) = CHR ''2''"
  "char_of (51::nat) = CHR ''3''" "char_of (52::nat) = CHR ''4''" "char_of (53::nat) = CHR ''5''"
  "char_of (54::nat) = CHR ''6''" "char_of (55::nat) = CHR ''7''" "char_of (56::nat) = CHR ''8''"
  "char_of (57::nat) = CHR ''9''"
  by (simp_all add: char_of_def bit_Suc_0_iff)

lemma of_char_digit_range:
  assumes "(48::nat) \<le> of_char c" and "of_char c \<le> (57::nat)"
  shows "c \<in> set ''0123456789''"
proof -
  have "char_of (of_char c :: nat) \<in> set ''0123456789''"
    using nat_between_48_57 [OF assms] by (auto simp only: char_of_nat_digits list.set insert_iff)
  then show ?thesis
    by (simp only: char_of_char)
qed

lemma stack_index_digit:
  "c \<in> set ''0123456789'' \<Longrightarrow> char_plus CHR ''0'' (int (stack_index c)) = c"
  by (auto simp add: stack_index_def char_plus_digits)

lemma stack_index_not_digit: "c \<notin> set ''0123456789'' \<Longrightarrow> stack_index c = 0"
  using of_char_digit_range [of c] by (auto simp add: stack_index_def)

lemma stack_index_le_9: "stack_index c \<le> 9"
proof (cases "c \<in> set ''0123456789''")
  case True
  then show ?thesis by (auto simp add: stack_index_def)
next
  case False
  then show ?thesis by (simp add: stack_index_not_digit)
qed


subsection \<open>The stack view\<close>

text \<open>
  Claim C8: for every stack depth and every decode of the symbol buffer, the stack view
  selects the index \<open>idx\<close>: the decoded digit when the decode is one of \<open>0\<close> to \<open>9\<close>,
  and 0 otherwise. When \<open>idx\<close> is at least the depth it shows \<open>empty\<close> and reads no
  stack cell; when \<open>idx\<close> is below the depth it reads exactly the cell
  \<open>depth - 1 - idx\<close>. Every cell it reads lies between 0 and \<open>depth - 1\<close>.
\<close>

theorem morsecalc_print_stack_reads_in_range:
  assumes "mc_dec env (b (mc mcs)) = c" and "s (cs mcs) = depth"
  shows "(c \<in> set ''0123456789'' \<longrightarrow> char_plus CHR ''0'' (int (stack_index c)) = c) \<and>
    (c \<notin> set ''0123456789'' \<longrightarrow> stack_index c = 0) \<and>
    stack_index c \<le> 9 \<and>
    (depth \<le> stack_index c \<longrightarrow>
       fst (morsecalc_print_stack_traced env mcs disp) = [] \<and>
       shown (snd (morsecalc_print_stack_traced env mcs disp)) 4 6 = '' empty'') \<and>
    (stack_index c < depth \<longrightarrow>
       fst (morsecalc_print_stack_traced env mcs disp) = [int depth - 1 - int (stack_index c)]) \<and>
    (\<forall>i \<in> set (fst (morsecalc_print_stack_traced env mcs disp)). 0 \<le> i \<and> i < int depth)"
proof -
  have empty: "fst (morsecalc_print_stack_traced env mcs disp) = [] \<and>
      shown (snd (morsecalc_print_stack_traced env mcs disp)) 4 6 = '' empty''"
    if "depth \<le> stack_index c"
    using that assms
    by (simp add: morsecalc_print_stack_traced_def Let_def shown_4_6 watch_display_character_apply)
  have item: "fst (morsecalc_print_stack_traced env mcs disp) = [int depth - 1 - int (stack_index c)]"
    if "stack_index c < depth"
    using that assms by (simp add: morsecalc_print_stack_traced_def Let_def)
  have range: "\<forall>i \<in> set (fst (morsecalc_print_stack_traced env mcs disp)). 0 \<le> i \<and> i < int depth"
  proof (cases "stack_index c < depth")
    case True
    then show ?thesis by (simp add: item)
  next
    case False
    then show ?thesis by (simp add: empty)
  qed
  show ?thesis
    using empty item range stack_index_digit [of c] stack_index_not_digit [of c]
      stack_index_le_9 [of c]
    by blast
qed

lemma example_session_fields:
  "b (mc (example_session syms tok depth)) = syms"
  "s (cs (example_session syms tok depth)) = depth"
  "mc_dec example_environment = example_mc_dec"
  by (simp_all add: example_session_def example_environment_def)

theorem morsecalc_print_stack_reads_in_range_witness:
  "mc_dec example_environment (b (mc (example_session ''.----'' [] 2))) = CHR ''1'' \<and>
   s (cs (example_session ''.----'' [] 2)) = 2 \<and>
   CHR ''1'' \<in> set ''0123456789'' \<and> stack_index CHR ''1'' = 1 \<and>
   fst (morsecalc_print_stack_traced example_environment (example_session ''.----'' [] 2)
     blank_display) = [0] \<and>
   fst (morsecalc_print_stack_traced example_environment (example_session ''.----'' [] 1)
     blank_display) = [] \<and>
   shown (snd (morsecalc_print_stack_traced example_environment (example_session ''.----'' [] 1)
     blank_display)) 4 6 = '' empty''"
  using morsecalc_print_stack_reads_in_range
      [of example_environment "example_session ''.----'' [] 2" "CHR ''1''" 2 blank_display]
    morsecalc_print_stack_reads_in_range
      [of example_environment "example_session ''.----'' [] 1" "CHR ''1''" 1 blank_display]
  by (simp add: example_session_fields example_mc_dec_def stack_index_def)


subsection \<open>The dispatcher\<close>

lemma example_fields:
  "cs (example_session syms tok depth) = \<lparr>stack = [Finite 2, Finite 3], s = depth\<rparr>"
  "token (example_session syms tok depth) = tok @ replicate (9 - length tok) NUL"
  "idxt (example_session syms tok depth) = length tok"
  "MORSECALC_TOKEN_LEN example_environment = 9"
  "calc_input example_environment = example_calc_input"
  by (simp_all add: example_session_def example_environment_def)

lemma c_str_simps:
  "c_str [] = []"
  "c_str (c # cells) = (if c = CHR 0x00 then [] else c # c_str cells)"
  "c_str (replicate n CHR 0x00) = []"
  by (simp_all add: c_str_def NUL_def)

lemma dispatch_submit:
  assumes "mc_dec env (b (mc mcs)) = CHR '' ''"
  shows "morsecalc_input_dispatch env mcs CHR ''x'' disp =
     (fst (calc_input env (cs mcs) (c_str (token mcs))),
      morsecalc_reset_token env
        (mcs\<lparr>mc := mc_reset (mc mcs), cs := snd (calc_input env (cs mcs) (c_str (token mcs)))\<rparr>),
      morsecalc_print_stack env
        (morsecalc_reset_token env
          (mcs\<lparr>mc := mc_reset (mc mcs), cs := snd (calc_input env (cs mcs) (c_str (token mcs)))\<rparr>))
        disp)"
  using assms
  by (simp add: morsecalc_input_dispatch_def Let_def NUL_def split_beta)

lemma dispatch_status:
  "fst (morsecalc_input_dispatch env mcs c disp) =
     (if c = CHR ''x'' \<and> mc_dec env (b (mc mcs)) = CHR '' ''
      then fst (calc_input env (cs mcs) (c_str (token mcs))) else 0)"
  by (simp add: morsecalc_input_dispatch_def Let_def NUL_def split_beta)

lemma morsecalc_input_unfold:
  "morsecalc_input env mcs c disp =
     (fst (snd (morsecalc_input_dispatch env mcs c disp)),
      print_errors (fst (morsecalc_input_dispatch env mcs c disp))
        (snd (snd (morsecalc_input_dispatch env mcs c disp))))"
  by (simp add: morsecalc_input_def split_beta)

lemma c_str_replicate_NUL: "c_str (replicate n NUL) = []"
  by (cases n) (simp_all add: c_str_def)

lemma shown_print_errors:
  "shown (print_errors (- 1) disp) 4 6 = ''cmderr''"
  "shown (print_errors (- 2) disp) 4 6 = ''stkerr''"
  "status \<noteq> 0 \<Longrightarrow> status \<noteq> - 1 \<Longrightarrow> status \<noteq> - 2 \<Longrightarrow>
     shown (print_errors status disp) 4 6 = ''   err''"
  "print_errors 0 disp = disp"
  by (simp_all add: print_errors_def error_literal_def shown_4_6 watch_display_character_apply)

text \<open>
  Claim C5: when a completed character decodes to the space character, the dispatcher
  passes the token to the calculator engine, then clears the token (every cell NUL,
  index 0) and renders the stack view of the resulting session, followed by the error
  literal of the status. The token is cleared whatever status the engine returned.
\<close>

theorem morsecalc_input_submit_clears_token:
  assumes "mc_dec env (b (mc mcs)) = CHR '' ''"
  shows "cs (fst (morsecalc_input env mcs CHR ''x'' disp)) =
           snd (calc_input env (cs mcs) (c_str (token mcs))) \<and>
         token (fst (morsecalc_input env mcs CHR ''x'' disp)) =
           replicate (MORSECALC_TOKEN_LEN env) NUL \<and>
         c_str (token (fst (morsecalc_input env mcs CHR ''x'' disp))) = [] \<and>
         idxt (fst (morsecalc_input env mcs CHR ''x'' disp)) = 0 \<and>
         snd (morsecalc_input env mcs CHR ''x'' disp) =
           print_errors (fst (calc_input env (cs mcs) (c_str (token mcs))))
             (morsecalc_print_stack env (fst (morsecalc_input env mcs CHR ''x'' disp)) disp)"
  by (simp add: morsecalc_input_unfold dispatch_submit [OF assms] morsecalc_reset_token_def
      c_str_replicate_NUL)

theorem morsecalc_input_submit_clears_token_witness:
  "mc_dec example_environment (b (mc (example_session ''.-.-'' ''a'' 2))) = CHR '' '' \<and>
   fst (calc_input example_environment (cs (example_session ''.-.-'' ''a'' 2))
     (c_str (token (example_session ''.-.-'' ''a'' 2)))) = - 1 \<and>
   c_str (token (fst (morsecalc_input example_environment (example_session ''.-.-'' ''a'' 2)
     CHR ''x'' blank_display))) = [] \<and>
   idxt (fst (morsecalc_input example_environment (example_session ''.-.-'' ''a'' 2)
     CHR ''x'' blank_display)) = 0 \<and>
   s (cs (fst (morsecalc_input example_environment (example_session ''.-.-'' ''1'' 2)
     CHR ''x'' blank_display))) = 3 \<and>
   c_str (token (fst (morsecalc_input example_environment (example_session ''.-.-'' ''1'' 2)
     CHR ''x'' blank_display))) = []"
  using morsecalc_input_submit_clears_token
      [of example_environment "example_session ''.-.-'' ''a'' 2" blank_display]
    morsecalc_input_submit_clears_token
      [of example_environment "example_session ''.-.-'' ''1'' 2" blank_display]
  by (simp add: example_session_fields example_fields example_mc_dec_def example_calc_input_def
      c_str_simps NUL_def)

text \<open>
  Claim C6: the status the calculator engine returns on submit decides the display:
  status 0 leaves the stack view as rendered, status \<open>-1\<close> shows \<open>cmderr\<close>, status
  \<open>-2\<close> shows \<open>stkerr\<close>, and every other nonzero status shows the blank-padded
  \<open>err\<close>.
\<close>

theorem morsecalc_input_status_display:
  assumes "mc_dec env (b (mc mcs)) = CHR '' ''"
    and "fst (calc_input env (cs mcs) (c_str (token mcs))) = status"
  shows "(status = 0 \<longrightarrow>
            snd (morsecalc_input env mcs CHR ''x'' disp) =
              morsecalc_print_stack env (fst (morsecalc_input env mcs CHR ''x'' disp)) disp) \<and>
         (status = - 1 \<longrightarrow> shown (snd (morsecalc_input env mcs CHR ''x'' disp)) 4 6 = ''cmderr'') \<and>
         (status = - 2 \<longrightarrow> shown (snd (morsecalc_input env mcs CHR ''x'' disp)) 4 6 = ''stkerr'') \<and>
         (status \<noteq> 0 \<and> status \<noteq> - 1 \<and> status \<noteq> - 2 \<longrightarrow>
            shown (snd (morsecalc_input env mcs CHR ''x'' disp)) 4 6 = ''   err'')"
  using assms(2)
  by (simp add: morsecalc_input_unfold dispatch_submit [OF assms(1)] shown_print_errors)

theorem morsecalc_input_status_display_witness:
  "mc_dec example_environment (b (mc (example_session ''.-.-'' ''a'' 2))) = CHR '' '' \<and>
   fst (calc_input example_environment (cs (example_session ''.-.-'' ''a'' 2))
     (c_str (token (example_session ''.-.-'' ''a'' 2)))) = - 1 \<and>
   shown (snd (morsecalc_input example_environment (example_session ''.-.-'' ''a'' 2)
     CHR ''x'' blank_display)) 4 6 = ''cmderr'' \<and>
   fst (calc_input example_environment (cs (example_session ''.-.-'' ''+'' 2))
     (c_str (token (example_session ''.-.-'' ''+'' 2)))) = - 2 \<and>
   shown (snd (morsecalc_input example_environment (example_session ''.-.-'' ''+'' 2)
     CHR ''x'' blank_display)) 4 6 = ''stkerr'' \<and>
   fst (calc_input example_environment (cs (example_session ''.-.-'' ''?'' 2))
     (c_str (token (example_session ''.-.-'' ''?'' 2)))) = - 3 \<and>
   shown (snd (morsecalc_input example_environment (example_session ''.-.-'' ''?'' 2)
     CHR ''x'' blank_display)) 4 6 = ''   err''"
  using morsecalc_input_status_display
      [of example_environment "example_session ''.-.-'' ''a'' 2" "- 1" blank_display]
    morsecalc_input_status_display
      [of example_environment "example_session ''.-.-'' ''+'' 2" "- 2" blank_display]
    morsecalc_input_status_display
      [of example_environment "example_session ''.-.-'' ''?'' 2" "- 3" blank_display]
  by (simp add: example_session_fields example_fields example_mc_dec_def example_calc_input_def
      c_str_simps NUL_def)

text \<open>
  Claim C7: when the token index equals \<^verbatim>\<open>MORSECALC_TOKEN_LEN - 1\<close> and a completed
  character decodes to a character to append (not NUL, space, \<open>(\<close> or \<open>S\<close>), the token
  cells and the token index are unchanged, the calculator state is unchanged, and the
  display shows the blank-padded \<open>full\<close>.
\<close>

theorem morsecalc_input_token_full:
  assumes "int (idxt mcs) = int (MORSECALC_TOKEN_LEN env) - 1"
    and "mc_dec env (b (mc mcs)) = dec"
    and "dec \<notin> {NUL, CHR '' '', CHR ''('', CHR ''S''}"
  shows "token (fst (morsecalc_input env mcs CHR ''x'' disp)) = token mcs \<and>
         idxt (fst (morsecalc_input env mcs CHR ''x'' disp)) = idxt mcs \<and>
         cs (fst (morsecalc_input env mcs CHR ''x'' disp)) = cs mcs \<and>
         shown (snd (morsecalc_input env mcs CHR ''x'' disp)) 4 6 = ''  full''"
  using assms
  by (simp add: morsecalc_input_unfold morsecalc_input_dispatch_def Let_def shown_print_errors
      shown_4_6 watch_display_character_apply)

theorem morsecalc_input_token_full_witness:
  "int (idxt (example_session ''.-'' ''12345678'' 2)) = int (MORSECALC_TOKEN_LEN example_environment) - 1 \<and>
   mc_dec example_environment (b (mc (example_session ''.-'' ''12345678'' 2))) = CHR ''a'' \<and>
   CHR ''a'' \<notin> {NUL, CHR '' '', CHR ''('', CHR ''S''} \<and>
   c_str (token (fst (morsecalc_input example_environment (example_session ''.-'' ''12345678'' 2)
     CHR ''x'' blank_display))) = ''12345678'' \<and>
   idxt (fst (morsecalc_input example_environment (example_session ''.-'' ''12345678'' 2)
     CHR ''x'' blank_display)) = 8 \<and>
   shown (snd (morsecalc_input example_environment (example_session ''.-'' ''12345678'' 2)
     CHR ''x'' blank_display)) 4 6 = ''  full''"
  using morsecalc_input_token_full
      [of "example_session ''.-'' ''12345678'' 2" example_environment "CHR ''a''" blank_display]
  by (simp add: example_session_fields example_fields example_mc_dec_def
      c_str_simps NUL_def)

text \<open>
  Claim C10: for every input to the dispatcher, the final \<^verbatim>\<open>switch(status)\<close> writes one
  of the literals \<open>cmderr\<close>, \<open>stkerr\<close>, \<open>err\<close> exactly when the input completes a
  character, the character decodes to the space character and the calculator engine
  returns a nonzero status. In every other case (a dot or a dash, an invalid decode,
  delete, clear, append, a successful submit) no error literal is written and the
  display is the one the branch rendered.
\<close>

theorem morsecalc_input_error_iff_failed_submit:
  "snd (morsecalc_input env mcs c disp) =
     (case error_literal (fst (morsecalc_input_dispatch env mcs c disp)) of
        None \<Rightarrow> snd (snd (morsecalc_input_dispatch env mcs c disp))
      | Some lit \<Rightarrow> watch_display_string lit 4 (snd (snd (morsecalc_input_dispatch env mcs c disp)))) \<and>
   error_literal (fst (morsecalc_input_dispatch env mcs c disp)) \<in>
     {None, Some ''cmderr'', Some ''stkerr'', Some ''   err''} \<and>
   (error_literal (fst (morsecalc_input_dispatch env mcs c disp)) \<noteq> None \<longleftrightarrow>
      c = CHR ''x'' \<and> mc_dec env (b (mc mcs)) = CHR '' '' \<and>
      fst (calc_input env (cs mcs) (c_str (token mcs))) \<noteq> 0)"
  by (auto simp add: morsecalc_input_unfold print_errors_def dispatch_status error_literal_def)

subsection \<open>Activation\<close>

text \<open>
  Claim C2 as stated says that activation also resets the token buffer to empty. On the
  example session holding the token \<open>12\<close>, the token after activation is still \<open>12\<close>.
\<close>

theorem morsecalc_face_activate_token_counterexample:
  "c_str (token (fst (morsecalc_face_activate example_environment
      (example_session ''.-'' ''12'' 2) blank_display))) = ''12'' \<and>
   idxt (fst (morsecalc_face_activate example_environment
      (example_session ''.-'' ''12'' 2) blank_display)) = 2 \<and>
   c_str (token (fst (morsecalc_face_activate example_environment
      (example_session ''.-'' ''12'' 2) blank_display))) \<noteq> []"
  by (simp add: morsecalc_face_activate_def Let_def example_fields c_str_simps NUL_def)

text \<open>
  Claim C2, as amended: every time the activation hook runs, the symbol buffer is reset
  to empty and the stack view is rendered; the token buffer (cells and index) and the
  calculator state are left unchanged.
\<close>

theorem morsecalc_face_activate_keeps_token:
  "b (mc (fst (morsecalc_face_activate env mcs disp))) = [] \<and>
   bidx (mc (fst (morsecalc_face_activate env mcs disp))) = 0 \<and>
   token (fst (morsecalc_face_activate env mcs disp)) = token mcs \<and>
   idxt (fst (morsecalc_face_activate env mcs disp)) = idxt mcs \<and>
   cs (fst (morsecalc_face_activate env mcs disp)) = cs mcs \<and>
   snd (morsecalc_face_activate env mcs disp) =
     morsecalc_print_stack env (fst (morsecalc_face_activate env mcs disp)) disp"
  by (simp add: morsecalc_face_activate_def Let_def mc_reset_def)

end
